theory Spec2Isabelle
  imports Main "HOL-Library.Word"
begin

section \<open>Go library functions used by main.go\<close>

text \<open>
  Go strings are byte sequences; they are modelled as \<open>string\<close> (a \<open>char list\<close>).
  A Go \<open>error\<close> value is modelled by its message; \<open>nil\<close> is \<open>None\<close>.
\<close>

type_synonym error = string

datatype panic = IndexOutOfRange

text \<open>\<open>strings.HasPrefix(s, prefix)\<close>: \<open>len(s) >= len(prefix) && s[:len(prefix)] == prefix\<close>.\<close>

definition strings_HasPrefix :: "string \<Rightarrow> string \<Rightarrow> bool" where
  "strings_HasPrefix s pre = (length pre \<le> length s \<and> take (length pre) s = pre)"

text \<open>\<open>strings.TrimPrefix(s, prefix)\<close>: \<open>s\<close> without the leading \<open>prefix\<close>, or \<open>s\<close> unchanged.\<close>

definition strings_TrimPrefix :: "string \<Rightarrow> string \<Rightarrow> string" where
  "strings_TrimPrefix s pre = (if strings_HasPrefix s pre then drop (length pre) s else s)"

text \<open>\<open>strings.Index(s, substr)\<close>: the first position at which \<open>substr\<close> occurs in \<open>s\<close>;
  Go's \<open>-1\<close> is \<open>None\<close>.\<close>

fun strings_Index :: "string \<Rightarrow> string \<Rightarrow> nat option" where
  "strings_Index [] sub = (if sub = [] then Some 0 else None)"
| "strings_Index (c # cs) sub =
     (if strings_HasPrefix (c # cs) sub then Some 0
      else map_option Suc (strings_Index cs sub))"

text \<open>\<open>strings.Contains(s, substr)\<close> is \<open>Index(s, substr) >= 0\<close>.\<close>

definition strings_Contains :: "string \<Rightarrow> string \<Rightarrow> bool" where
  "strings_Contains s sub = (strings_Index s sub \<noteq> None)"

lemma strings_Index_bound:
  "strings_Index s sub = Some m \<Longrightarrow> m + length sub \<le> length s"
proof (induction s arbitrary: m)
  case Nil
  then show ?case by (simp split: if_splits)
next
  case (Cons c cs)
  show ?case
  proof (cases "strings_HasPrefix (c # cs) sub")
    case True
    with Cons.prems show ?thesis by (simp add: strings_HasPrefix_def)
  next
    case False
    with Cons.prems obtain k where "strings_Index cs sub = Some k" "m = Suc k"
      by auto
    with Cons.IH [of k] show ?thesis by simp
  qed
qed

text \<open>
  \<open>strings.Split(s, sep)\<close> is \<open>genSplit(s, sep, 0, -1)\<close>. With an empty separator the
  string is exploded into its characters (one byte each here); otherwise the loop cuts
  \<open>s\<close> at each occurrence of \<open>sep\<close> found by \<open>Index\<close>, left to right, and the remainder
  is the last element.
\<close>

function genSplit :: "string \<Rightarrow> string \<Rightarrow> string list" where
  "genSplit s sep =
     (if sep = [] then [s]
      else (case strings_Index s sep of
              None \<Rightarrow> [s]
            | Some m \<Rightarrow> take m s # genSplit (drop (m + length sep) s) sep))"
  by pat_completeness auto
termination
proof (relation "measure (\<lambda>(s, sep). length s)")
  show "wf (measure (\<lambda>(s, sep). length s))" by simp
next
  fix s sep :: string and m
  assume "sep \<noteq> []" and "strings_Index s sep = Some m"
  then have "m + length sep \<le> length s" and "0 < length sep"
    using strings_Index_bound [of s sep m] by simp_all
  then show "((drop (m + length sep) s, sep), (s, sep)) \<in> measure (\<lambda>(s, sep). length s)"
    by (cases sep) simp_all
qed

declare genSplit.simps [simp del]

definition strings_Split :: "string \<Rightarrow> string \<Rightarrow> string list" where
  "strings_Split s sep = (if sep = [] then map (\<lambda>c. [c]) s else genSplit s sep)"

text \<open>Indexing a slice, \<open>xs[i]\<close> with \<open>i\<close> a Go \<open>int\<close>: out of range is a run-time panic.\<close>

definition slice_index :: "'a list \<Rightarrow> int \<Rightarrow> panic + 'a" where
  "slice_index xs i =
     (if 0 \<le> i \<and> i < int (length xs) then Inr (xs ! nat i) else Inl IndexOutOfRange)"

text \<open>Decimal rendering of an integer, as the verbs \<open>%d\<close> and \<open>%v\<close> print it.\<close>

function nat_digits :: "nat \<Rightarrow> string" where
  "nat_digits n =
     (if n < 10 then [''0123456789'' ! n]
      else nat_digits (n div 10) @ [''0123456789'' ! (n mod 10)])"
  by pat_completeness auto
termination
  by (relation "measure id") auto

declare nat_digits.simps [simp del]

definition show_int :: "int \<Rightarrow> string" where
  "show_int i = (if i < 0 then ''-'' @ nat_digits (nat (- i)) else nat_digits (nat i))"

section \<open>Pure functions of main.go\<close>

record RepoRequest =
  RepoURL :: string

definition getRepoNameFromURL :: "string \<Rightarrow> panic + string" where
  "getRepoNameFromURL repoURL =
     (let repoURL' = strings_TrimPrefix repoURL ''https://github.com/'';
          parts = strings_Split repoURL' ''/''
      in slice_index parts (int (length parts) - 1))"

definition buildToolArgs :: "string \<Rightarrow> string" where
  "buildToolArgs buildTool = (if buildTool = ''maven'' then ''clean package'' else ''build'')"


text \<open>
  The value of the local variable \<open>dockerfileContent\<close> of \<open>generateDockerfile\<close> when it is
  written to disk. The two raw string literals begin with a line break followed by a tab.
\<close>

definition dockerfileContent :: "string \<Rightarrow> string" where
  "dockerfileContent buildTool =
     ([CHR 0x0A, CHR 0x09] @ ''FROM openjdk:17-jdk-slim''
        @ [CHR 0x0A, CHR 0x09] @ ''RUN apt-get update && apt-get install -y curl git'')
     @ (if buildTool = ''maven'' then CHR 0x0A # ''RUN apt-get install -y maven''
        else if buildTool = ''gradle'' then CHR 0x0A # ''RUN apt-get install -y gradle''
        else [])
     @ ([CHR 0x0A, CHR 0x09] @ ''WORKDIR /app'' @ [CHR 0x0A, CHR 0x09] @ ''COPY . .'')"

section \<open>The outside world\<close>

text \<open>
  Everything \<open>main.go\<close> does to the outside world is recorded, in program order, as a
  trace of events. \<open>Stdout\<close> carries the text that \<open>fmt.Println\<close> or \<open>fmt.Printf\<close> prints,
  \<open>HttpError\<close> the body and status code given to \<open>http.Error\<close>, \<open>Close\<close> the deferred
  \<open>Close\<close> call on the named value.
\<close>

record container_Config =
  Image :: string
  Cmd :: "string list"

record types_ImageBuildOptions =
  Dockerfile :: string
  Tags :: "string list"

record container_WaitResponse =
  StatusCode :: "64 word"

datatype wait_signal =
    FromErrCh "error option"
  | FromStatusCh container_WaitResponse

datatype event =
    Stdout string
  | HttpError string nat
  | ExecRun "string list"
  | MkdirAll string nat
  | Stat string
  | WriteFile string string nat
  | Open string
  | NewClientWithOpts
  | ImageBuild string types_ImageBuildOptions
  | ContainerCreate container_Config
  | ContainerStart string
  | ContainerWait string
  | CopyFromContainer string string
  | Close string
  | Panicked panic

text \<open>
  What the outside world answers to each call: the results of the standard library, of
  the \<open>git\<close> process and of the Docker client. The theorems below hold for every such
  environment.
\<close>

record env =
  json_Decode :: "string \<Rightarrow> error + RepoRequest"
  time_Now_Unix :: "64 word"
  os_MkdirAll :: "string \<Rightarrow> error option"
  exec_Run :: "string list \<Rightarrow> error option"
  filepath_Join :: "string list \<Rightarrow> string"
  os_Stat :: "string \<Rightarrow> error option"
  os_IsNotExist :: "error \<Rightarrow> bool"
  os_WriteFile :: "string \<Rightarrow> string \<Rightarrow> error option"
  os_Open :: "string \<Rightarrow> error option"
  client_NewClientWithOpts :: "error option"
  cli_ImageBuild :: "string \<Rightarrow> types_ImageBuildOptions \<Rightarrow> error option"
  cli_ContainerCreate :: "container_Config \<Rightarrow> error + string"
  cli_ContainerStart :: "string \<Rightarrow> error option"
  cli_ContainerWait :: "string \<Rightarrow> wait_signal"
  cli_CopyFromContainer :: "string \<Rightarrow> string \<Rightarrow> error option"

record http_Request =
  Body :: string

definition nl :: string where
  "nl = [CHR 0x0A]"

definition os_ModePerm :: nat where
  "os_ModePerm = 511"

definition emit :: "event list \<Rightarrow> event list \<times> 'a \<Rightarrow> event list \<times> 'a" where
  "emit evs r = (evs @ fst r, snd r)"

section \<open>The functions of main.go that act on the outside world\<close>

definition fetchCodeFromGitHub :: "env \<Rightarrow> string \<Rightarrow> string \<Rightarrow> event list \<times> error option" where
  "fetchCodeFromGitHub e repoURL projectDir =
     emit [ExecRun [''git'', ''clone'', repoURL, projectDir]]
       (case exec_Run e [''git'', ''clone'', repoURL, projectDir] of
          Some err \<Rightarrow> ([], Some (''failed to clone repo: '' @ err))
        | None \<Rightarrow> ([], None))"

definition createProjectDir :: "env \<Rightarrow> string \<Rightarrow> event list \<times> string" where
  "createProjectDir e repoName =
     (let timestamp = time_Now_Unix e;
          projectDir = repoName @ ''-'' @ show_int (sint timestamp)
      in emit [MkdirAll projectDir os_ModePerm]
           (case os_MkdirAll e projectDir of
              Some err \<Rightarrow> ([Stdout (''Error creating project directory: '' @ err @ nl)], [])
            | None \<Rightarrow> ([], projectDir)))"

definition generateDockerfile :: "env \<Rightarrow> string \<Rightarrow> event list \<times> error option" where
  "generateDockerfile e buildTool =
     emit [WriteFile ''Dockerfile'' (dockerfileContent buildTool) 420]
       (case os_WriteFile e ''Dockerfile'' (dockerfileContent buildTool) of
          Some err \<Rightarrow> ([], Some (''failed to write Dockerfile: '' @ err))
        | None \<Rightarrow> ([], None))"

definition detectBuildTool :: "env \<Rightarrow> string \<Rightarrow> event list \<times> string" where
  "detectBuildTool e projectPath =
     (let pomPath = filepath_Join e [projectPath, ''pom.xml'']
      in emit [Stat pomPath]
           (case os_Stat e pomPath of
              None \<Rightarrow> ([], ''maven'')
            | Some err \<Rightarrow>
                emit [Stdout (if os_IsNotExist e err
                              then ''pom.xml does not exist at '' @ pomPath @ nl
                              else ''Error checking pom.xml: '' @ err @ nl)]
                  (let gradlePath = filepath_Join e [projectPath, ''build.gradle'']
                   in emit [Stat gradlePath]
                        (case os_Stat e gradlePath of
                           None \<Rightarrow> ([], ''gradle'')
                         | Some err \<Rightarrow>
                             ([Stdout (if os_IsNotExist e err
                                       then ''build.gradle does not exist at '' @ gradlePath @ nl
                                       else ''Error checking build.gradle: '' @ err @ nl)],
                              ''unknown'')))))"

text \<open>
  The \<open>select\<close> statement of \<open>executeBuild\<close>: the error it returns, or \<open>None\<close> when control
  falls through to the artifact extraction.
\<close>

definition waitError :: "wait_signal \<Rightarrow> error option" where
  "waitError sig =
     (case sig of
        FromErrCh None \<Rightarrow> None
      | FromErrCh (Some err) \<Rightarrow> Some (''error while waiting for container: '' @ err)
      | FromStatusCh status \<Rightarrow>
          (if StatusCode status \<noteq> 0
           then Some (''container exited with non-zero status: ''
                        @ show_int (sint (StatusCode status)))
           else None))"

definition containerConfig :: "string \<Rightarrow> container_Config" where
  "containerConfig buildTool =
     \<lparr>Image = ''java-build-env'',
      Cmd = [''/bin/sh'', ''-c'', buildTool @ '' '' @ buildToolArgs buildTool]\<rparr>"

definition executeBuild :: "env \<Rightarrow> string \<Rightarrow> string \<Rightarrow> event list \<times> error option" where
  "executeBuild e projectPath buildTool =
     emit [NewClientWithOpts]
     (case client_NewClientWithOpts e of
        Some err \<Rightarrow> ([], Some (''failed to initialize Docker client: '' @ err))
      | None \<Rightarrow>
     (case generateDockerfile e buildTool of
        (tr, Some err) \<Rightarrow> (tr, Some err)
      | (tr, None) \<Rightarrow>
     emit (tr @ [Open projectPath])
     (case os_Open e projectPath of
        Some err \<Rightarrow> ([], Some (''failed to open project directory: '' @ err))
      | None \<Rightarrow>
     (let opts = \<lparr>Dockerfile = ''Dockerfile'', Tags = [''java-build-env'']\<rparr>
      in emit [ImageBuild projectPath opts]
     (case cli_ImageBuild e projectPath opts of
        Some err \<Rightarrow>
          ([Close ''buildContext''], Some (''failed to build Docker image: '' @ err))
      | None \<Rightarrow>
     emit [ContainerCreate (containerConfig buildTool)]
     (case cli_ContainerCreate e (containerConfig buildTool) of
        Inl err \<Rightarrow>
          ([Close ''buildResp.Body'', Close ''buildContext''],
           Some (''failed to create container: '' @ err))
      | Inr containerID \<Rightarrow>
     emit [ContainerStart containerID]
     (case cli_ContainerStart e containerID of
        Some err \<Rightarrow>
          ([Close ''buildResp.Body'', Close ''buildContext''],
           Some (''failed to start container: '' @ err))
      | None \<Rightarrow>
     emit [ContainerWait containerID]
     (case waitError (cli_ContainerWait e containerID) of
        Some err \<Rightarrow> ([Close ''buildResp.Body'', Close ''buildContext''], Some err)
      | None \<Rightarrow>
     emit [CopyFromContainer containerID ''/app/target'']
     (case cli_CopyFromContainer e containerID ''/app/target'' of
        Some err \<Rightarrow>
          ([Close ''buildResp.Body'', Close ''buildContext''],
           Some (''failed to copy build artifacts: '' @ err))
      | None \<Rightarrow>
     emit [MkdirAll ''build-output'' os_ModePerm]
     (case os_MkdirAll e ''build-output'' of
        Some err \<Rightarrow>
          ([Close ''copyResp'', Close ''buildResp.Body'', Close ''buildContext''],
           Some (''failed to create build output directory: '' @ err))
      | None \<Rightarrow>
          ([Close ''copyResp'', Close ''buildResp.Body'', Close ''buildContext''],
           None)))))))))))"

definition deployHandler :: "env \<Rightarrow> http_Request \<Rightarrow> event list" where
  "deployHandler e r =
     (case json_Decode e (Body r) of
        Inl jsonErr \<Rightarrow> [HttpError (''Error parsing request body: '' @ jsonErr) 400]
      | Inr req \<Rightarrow>
     Stdout (RepoURL req @ nl) #
     (case getRepoNameFromURL (RepoURL req) of
        Inl p \<Rightarrow> [Panicked p]
      | Inr repoName \<Rightarrow>
     if repoName = [] then [Stdout (''Failed to extract repository name from URL.'' @ nl)]
     else
     Stdout (''Extracted repository name: '' @ repoName @ nl) #
     (case createProjectDir e repoName of (tr1, projectDir) \<Rightarrow>
     tr1 @
     (if projectDir = [] then [Stdout (''Failed to create project directory.'' @ nl)]
      else
     Stdout (''Project directory created: '' @ projectDir @ nl) #
     (case fetchCodeFromGitHub e (RepoURL req) projectDir of
        (tr2, Some err) \<Rightarrow> tr2 @ [Stdout (''Error fetching code: '' @ err @ nl)]
      | (tr2, None) \<Rightarrow>
     tr2 @
     (case detectBuildTool e projectDir of (tr3, buildTool) \<Rightarrow>
     tr3 @
     (if buildTool = ''unknown''
      then [Stdout (''Unsupported build tool!'' @ nl),
            HttpError ''Unsupported build tool! %!v(MISSING)'' 400]
      else
     (case executeBuild e projectDir buildTool of
        (tr4, Some fetchErr) \<Rightarrow> tr4 @ [Stdout (''Build failed: <nil>'' @ nl)]
      | (tr4, None) \<Rightarrow> tr4 @ [Stdout (''Build completed successfully!'' @ nl)]))))))))"

section \<open>Observations on traces\<close>

text \<open>The calls of \<open>http.Error\<close> in a trace: what the handler wrote to the client.\<close>

fun http_errors :: "event list \<Rightarrow> (string \<times> nat) list" where
  "http_errors [] = []"
| "http_errors (HttpError body code # tr) = (body, code) # http_errors tr"
| "http_errors (ev # tr) = http_errors tr"

text \<open>The events of \<open>executeBuild\<close>: manifest, Docker client, image, container.\<close>

fun provisioning :: "event \<Rightarrow> bool" where
  "provisioning (WriteFile p c m) = True"
| "provisioning (Open p) = True"
| "provisioning NewClientWithOpts = True"
| "provisioning (ImageBuild p opts) = True"
| "provisioning (ContainerCreate cfg) = True"
| "provisioning (ContainerStart cid) = True"
| "provisioning (ContainerWait cid) = True"
| "provisioning (CopyFromContainer cid p) = True"
| "provisioning ev = False"

fun is_copy :: "event \<Rightarrow> bool" where
  "is_copy (CopyFromContainer cid p) = True"
| "is_copy ev = False"





section \<open>Concrete environments\<close>

text \<open>
  A world in which every call succeeds: the request names the repository
  \<open>https://github.com/acme/app\<close>, the clone contains a \<open>pom.xml\<close> and no
  \<open>build.gradle\<close>, and the container exits with status 0.
\<close>

definition world_ok :: env where
  "world_ok =
     \<lparr>json_Decode = (\<lambda>body. Inr \<lparr>RepoURL = ''https://github.com/acme/app''\<rparr>),
      time_Now_Unix = 1700000000,
      os_MkdirAll = (\<lambda>path. None),
      exec_Run = (\<lambda>argv. None),
      filepath_Join = (\<lambda>elems. case elems of [a, b] \<Rightarrow> a @ ''/'' @ b | _ \<Rightarrow> concat elems),
      os_Stat = (\<lambda>path. if path = ''app-1700000000/pom.xml'' then None
                        else Some (''stat '' @ path @ '': no such file or directory'')),
      os_IsNotExist = (\<lambda>err. True),
      os_WriteFile = (\<lambda>path content. None),
      os_Open = (\<lambda>path. None),
      client_NewClientWithOpts = None,
      cli_ImageBuild = (\<lambda>path opts. None),
      cli_ContainerCreate = (\<lambda>cfg. Inr ''c0ffee''),
      cli_ContainerStart = (\<lambda>cid. None),
      cli_ContainerWait = (\<lambda>cid. FromStatusCh \<lparr>StatusCode = 0\<rparr>),
      cli_CopyFromContainer = (\<lambda>cid path. None)\<rparr>"

text \<open>The same world, where \<open>git clone\<close> fails.\<close>

definition world_clone_fails :: env where
  "world_clone_fails = world_ok\<lparr>exec_Run := (\<lambda>argv. Some ''exit status 128'')\<rparr>"

text \<open>The same world, where the build command exits with status 1.\<close>

definition world_exit_1 :: env where
  "world_exit_1 = world_ok\<lparr>cli_ContainerWait := (\<lambda>cid. FromStatusCh \<lparr>StatusCode = 1\<rparr>)\<rparr>"

text \<open>The same world, where the clone has neither \<open>pom.xml\<close> nor \<open>build.gradle\<close>.\<close>

definition world_no_marker :: env where
  "world_no_marker =
     world_ok\<lparr>os_Stat := (\<lambda>path. Some (''stat '' @ path @ '': no such file or directory''))\<rparr>"

text \<open>The same world, where the clone has both \<open>pom.xml\<close> and \<open>build.gradle\<close>.\<close>

definition world_both_markers :: env where
  "world_both_markers = world_ok\<lparr>os_Stat := (\<lambda>path. None)\<rparr>"

text \<open>The same world, where the request names a URL that ends in a slash.\<close>

definition world_trailing_slash :: env where
  "world_trailing_slash =
     world_ok\<lparr>json_Decode := (\<lambda>body. Inr \<lparr>RepoURL = ''https://github.com/acme/app/''\<rparr>)\<rparr>"

definition request0 :: http_Request where
  "request0 = \<lparr>Body = ''{}''\<rparr>"


section \<open>Lemmas on the library functions\<close>

lemma genSplit_nonempty: "genSplit s sep \<noteq> []"
  by (subst genSplit.simps) (simp split: option.splits)

lemma strings_Split_nonempty: "sep \<noteq> [] \<Longrightarrow> strings_Split s sep \<noteq> []"
  by (simp add: strings_Split_def genSplit_nonempty)

lemma strings_Index_single_None: "strings_Index s [c] = None \<longleftrightarrow> c \<notin> set s"
  by (induction s) (auto simp: strings_HasPrefix_def)

lemma genSplit_Nil: "genSplit [] [c] = [[]]"
  by (subst genSplit.simps) simp

text \<open>A string that ends in a one-character separator splits into a list that ends in
  the empty string.\<close>

lemma last_genSplit_trailing: "last (genSplit (t @ [c]) [c]) = []"
proof (induction "length t" arbitrary: t rule: less_induct)
  case less
  have "strings_Index (t @ [c]) [c] \<noteq> None"
    by (simp add: strings_Index_single_None)
  then obtain m where m: "strings_Index (t @ [c]) [c] = Some m"
    by blast
  from strings_Index_bound [OF m] have le: "m \<le> length t"
    by simp
  have unfold: "genSplit (t @ [c]) [c] = take m (t @ [c]) # genSplit (drop (Suc m) (t @ [c])) [c]"
    by (subst genSplit.simps) (simp add: m)
  show ?case
  proof (cases "m = length t")
    case True
    then show ?thesis
      by (simp add: unfold genSplit_Nil)
  next
    case False
    with le have lt: "m < length t" by simp
    then have "drop (Suc m) (t @ [c]) = drop (Suc m) t @ [c]"
      by simp
    moreover have "length (drop (Suc m) t) < length t"
      using lt by simp
    ultimately show ?thesis
      using less.hyps [of "drop (Suc m) t"] by (simp add: unfold genSplit_nonempty)
  qed
qed

lemma slice_index_last: "xs \<noteq> [] \<Longrightarrow> slice_index xs (int (length xs) - 1) = Inr (last xs)"
  by (cases xs rule: rev_cases) (simp_all add: slice_index_def nth_append)

lemma trim_trailing:
  "strings_TrimPrefix (u @ [c]) pre = [] \<or> (\<exists>t. strings_TrimPrefix (u @ [c]) pre = t @ [c])"
proof (cases "strings_HasPrefix (u @ [c]) pre")
  case False
  then show ?thesis by (simp add: strings_TrimPrefix_def)
next
  case True
  then have len: "length pre \<le> Suc (length u)"
    by (simp add: strings_HasPrefix_def)
  show ?thesis
  proof (cases "length pre \<le> length u")
    case True
    then have "drop (length pre) (u @ [c]) = drop (length pre) u @ [c]" by simp
    then show ?thesis by (simp add: strings_TrimPrefix_def)
  next
    case False
    with len have "drop (length pre) (u @ [c]) = []" by simp
    then show ?thesis by (simp add: strings_TrimPrefix_def)
  qed
qed

lemma getRepoNameFromURL_last:
  "getRepoNameFromURL repoURL
     = Inr (last (strings_Split (strings_TrimPrefix repoURL ''https://github.com/'') ''/''))"
  by (simp add: getRepoNameFromURL_def Let_def slice_index_last strings_Split_nonempty)

lemma getRepoNameFromURL_trailing_slash: "getRepoNameFromURL (u @ ''/'') = Inr []"
proof -
  have "last (strings_Split (strings_TrimPrefix (u @ ''/'') ''https://github.com/'') ''/'') = []"
    using trim_trailing [of u "CHR ''/''" "''https://github.com/''"]
    by (auto simp: strings_Split_def genSplit_Nil last_genSplit_trailing)
  then show ?thesis
    by (simp add: getRepoNameFromURL_last)
qed

text \<open>Unfolding everything evaluates the model in a concrete environment.\<close>

lemmas world_defs = world_ok_def world_clone_fails_def world_exit_1_def world_no_marker_def
  world_both_markers_def world_trailing_slash_def request0_def

lemmas eval_defs = deployHandler_def executeBuild_def generateDockerfile_def detectBuildTool_def
  createProjectDir_def fetchCodeFromGitHub_def emit_def waitError_def containerConfig_def
  buildToolArgs_def getRepoNameFromURL_def strings_TrimPrefix_def strings_HasPrefix_def
  strings_Split_def genSplit.simps slice_index_def show_int_def nat_digits.simps
  os_ModePerm_def Let_def

section \<open>The build command\<close>


text \<open>
  Claim C9. \<open>buildToolArgs\<close> is a total mapping with a default: \<open>"maven"\<close> gives
  \<open>"clean package"\<close> and every other string, \<open>"gradle"\<close> and unrecognised values
  included, gives \<open>"build"\<close>. The function has no failing branch.
\<close>

theorem buildToolArgs_total_with_default:
  "buildToolArgs ''maven'' = ''clean package''
   \<and> (buildTool \<noteq> ''maven'' \<longrightarrow> buildToolArgs buildTool = ''build'')"
  by (simp add: buildToolArgs_def)

theorem buildToolArgs_total_with_default_witness:
  "''gradle'' \<noteq> ''maven'' \<and> buildToolArgs ''gradle'' = ''build''
   \<and> ''ant'' \<noteq> ''maven'' \<and> buildToolArgs ''ant'' = ''build''"
  using buildToolArgs_total_with_default [of "''gradle''"]
    buildToolArgs_total_with_default [of "''ant''"]
  by simp

section \<open>The generated Dockerfile\<close>

lemma generateDockerfile_writes:
  "fst (generateDockerfile e buildTool)
     = [WriteFile ''Dockerfile'' (dockerfileContent buildTool) 420]"
  by (simp add: generateDockerfile_def emit_def split: option.splits)

text \<open>
  Claim C6. The manifest written for Maven installs the \<open>maven\<close> package and does not
  mention \<open>gradle\<close>; the manifest written for Gradle installs the \<open>gradle\<close> package and
  does not mention \<open>maven\<close>. In every environment \<open>generateDockerfile\<close> writes exactly
  that manifest to the file \<open>Dockerfile\<close>.
\<close>

theorem dockerfile_installs_own_toolchain_only:
  "fst (generateDockerfile e ''maven'')
     = [WriteFile ''Dockerfile'' (dockerfileContent ''maven'') 420]
   \<and> strings_Contains (dockerfileContent ''maven'') ''RUN apt-get install -y maven''
   \<and> \<not> strings_Contains (dockerfileContent ''maven'') ''gradle''
   \<and> fst (generateDockerfile e ''gradle'')
     = [WriteFile ''Dockerfile'' (dockerfileContent ''gradle'') 420]
   \<and> strings_Contains (dockerfileContent ''gradle'') ''RUN apt-get install -y gradle''
   \<and> \<not> strings_Contains (dockerfileContent ''gradle'') ''maven''"
  by (simp add: generateDockerfile_writes)
    (simp add: strings_Contains_def dockerfileContent_def strings_HasPrefix_def)

text \<open>
  Claim C7. The manifest is a function of the build-tool kind alone: two runs of
  \<open>generateDockerfile\<close> with the same kind, in any two environments and whatever the
  outcome of the write, write the same bytes to the same file.
\<close>

theorem generateDockerfile_deterministic:
  "fst (generateDockerfile e1 buildTool) = fst (generateDockerfile e2 buildTool)
   \<and> fst (generateDockerfile e1 buildTool)
     = [WriteFile ''Dockerfile'' (dockerfileContent buildTool) 420]"
  by (simp add: generateDockerfile_writes)


section \<open>Build-tool detection\<close>

text \<open>
  Claim C8. When both \<open>pom.xml\<close> and \<open>build.gradle\<close> exist in the project directory,
  \<open>detectBuildTool\<close> returns \<open>"maven"\<close>: the \<open>pom.xml\<close> probe comes first and
  \<open>build.gradle\<close> is not even probed.
\<close>

theorem detectBuildTool_pom_takes_precedence:
  assumes "os_Stat e (filepath_Join e [projectPath, ''pom.xml'']) = None"
    and "os_Stat e (filepath_Join e [projectPath, ''build.gradle'']) = None"
  shows "detectBuildTool e projectPath
           = ([Stat (filepath_Join e [projectPath, ''pom.xml''])], ''maven'')"
  using assms by (simp add: detectBuildTool_def emit_def Let_def)

theorem detectBuildTool_pom_takes_precedence_witness:
  "os_Stat world_both_markers
       (filepath_Join world_both_markers [''app-1700000000'', ''pom.xml'']) = None
   \<and> os_Stat world_both_markers
       (filepath_Join world_both_markers [''app-1700000000'', ''build.gradle'']) = None
   \<and> detectBuildTool world_both_markers ''app-1700000000''
       = ([Stat ''app-1700000000/pom.xml''], ''maven'')"
proof -
  have pom: "os_Stat world_both_markers
      (filepath_Join world_both_markers [''app-1700000000'', ''pom.xml'']) = None"
    by (simp add: world_defs)
  have gradle: "os_Stat world_both_markers
      (filepath_Join world_both_markers [''app-1700000000'', ''build.gradle'']) = None"
    by (simp add: world_defs)
  have "filepath_Join world_both_markers [''app-1700000000'', ''pom.xml'']
          = ''app-1700000000/pom.xml''"
    by (simp add: world_defs)
  with detectBuildTool_pom_takes_precedence [OF pom gradle] pom gradle
  show ?thesis by simp
qed

section \<open>Repository-name extraction\<close>

text \<open>
  Claim C10. \<open>getRepoNameFromURL\<close> is total: for every input the split of the trimmed
  string has at least one segment, so indexing its last segment never panics and the
  function returns that segment. A URL that ends in \<open>/\<close> yields the empty string, on
  which \<open>deployHandler\<close> prints that it failed to extract a name and returns without
  doing anything else.
\<close>

theorem getRepoNameFromURL_total:
  "strings_Split (strings_TrimPrefix repoURL ''https://github.com/'') ''/'' \<noteq> []
   \<and> getRepoNameFromURL repoURL
       = Inr (last (strings_Split (strings_TrimPrefix repoURL ''https://github.com/'') ''/''))
   \<and> getRepoNameFromURL (u @ ''/'') = Inr []
   \<and> (json_Decode e (Body r) = Inr req \<and> getRepoNameFromURL (RepoURL req) = Inr [] \<longrightarrow>
        deployHandler e r
          = [Stdout (RepoURL req @ nl),
             Stdout (''Failed to extract repository name from URL.'' @ nl)])"
proof -
  have "json_Decode e (Body r) = Inr req \<and> getRepoNameFromURL (RepoURL req) = Inr [] \<longrightarrow>
        deployHandler e r
          = [Stdout (RepoURL req @ nl),
             Stdout (''Failed to extract repository name from URL.'' @ nl)]"
    by (simp add: deployHandler_def)
  moreover have
    "strings_Split (strings_TrimPrefix repoURL ''https://github.com/'') ''/'' \<noteq> []"
    by (simp add: strings_Split_nonempty)
  ultimately show ?thesis
    using getRepoNameFromURL_last [of repoURL] getRepoNameFromURL_trailing_slash [of u]
    by blast
qed

theorem getRepoNameFromURL_total_witness:
  "json_Decode world_trailing_slash (Body request0)
       = Inr \<lparr>RepoURL = ''https://github.com/acme/app/''\<rparr>
   \<and> getRepoNameFromURL ''https://github.com/acme/app/'' = Inr []
   \<and> getRepoNameFromURL ''https://github.com/acme/app'' = Inr ''app''
   \<and> deployHandler world_trailing_slash request0
       = [Stdout (''https://github.com/acme/app/'' @ nl),
          Stdout (''Failed to extract repository name from URL.'' @ nl)]"
proof -
  have dec: "json_Decode world_trailing_slash (Body request0)
      = Inr \<lparr>RepoURL = ''https://github.com/acme/app/''\<rparr>"
    by (simp add: world_defs)
  have app: "last (strings_Split
      (strings_TrimPrefix ''https://github.com/acme/app'' ''https://github.com/'') ''/'')
      = ''app''"
    by (simp add: strings_TrimPrefix_def strings_HasPrefix_def strings_Split_def
        genSplit.simps)
  from getRepoNameFromURL_total
    [of "''https://github.com/acme/app''" "''https://github.com/acme/app''"
      world_trailing_slash request0 "\<lparr>RepoURL = ''https://github.com/acme/app/''\<rparr>"]
    dec app
  show ?thesis by simp
qed


section \<open>The order of artifact extraction\<close>




section \<open>Errors and the HTTP response\<close>

text \<open>
  Claim C3. Every error of a build invocation should reach the client as an HTTP error
  response. In the code only a malformed body and an unknown build tool call
  \<open>http.Error\<close>: when the clone fails, and when the build fails, \<open>deployHandler\<close> prints
  a message on standard output and returns without writing any response.
\<close>

theorem fetch_and_build_errors_not_reported:
  "http_errors (deployHandler world_clone_fails request0) = []
   \<and> last (deployHandler world_clone_fails request0)
       = Stdout (''Error fetching code: failed to clone repo: exit status 128'' @ nl)
   \<and> http_errors (deployHandler world_exit_1 request0) = []
   \<and> last (deployHandler world_exit_1 request0) = Stdout (''Build failed: <nil>'' @ nl)
   \<and> snd (executeBuild world_exit_1 ''app-1700000000'' ''maven'')
       = Some ''container exited with non-zero status: 1''"
  by (simp add: world_defs eval_defs)

text \<open>
  Claim C4. When build-tool detection returns \<open>"unknown"\<close>, \<open>deployHandler\<close> answers with
  HTTP status 400 and returns before \<open>executeBuild\<close>: the trace holds no Dockerfile
  write, no Docker client, no image build and no container call.
\<close>

theorem unknown_build_tool_rejected:
  assumes "json_Decode e (Body r) = Inr req"
    and "getRepoNameFromURL (RepoURL req) = Inr repoName"
    and "repoName \<noteq> []"
    and "createProjectDir e repoName = (tr1, projectDir)"
    and "projectDir \<noteq> []"
    and "snd (fetchCodeFromGitHub e (RepoURL req) projectDir) = None"
    and "snd (detectBuildTool e projectDir) = ''unknown''"
  shows "http_errors (deployHandler e r) = [(''Unsupported build tool! %!v(MISSING)'', 400)]
         \<and> filter provisioning (deployHandler e r) = []"
  using assms
  by (auto simp: deployHandler_def createProjectDir_def fetchCodeFromGitHub_def
      detectBuildTool_def emit_def Let_def split: option.splits prod.splits if_splits)

theorem unknown_build_tool_rejected_witness:
  "json_Decode world_no_marker (Body request0) = Inr \<lparr>RepoURL = ''https://github.com/acme/app''\<rparr>
   \<and> getRepoNameFromURL ''https://github.com/acme/app'' = Inr ''app''
   \<and> createProjectDir world_no_marker ''app''
       = ([MkdirAll ''app-1700000000'' 511], ''app-1700000000'')
   \<and> snd (fetchCodeFromGitHub world_no_marker ''https://github.com/acme/app''
            ''app-1700000000'') = None
   \<and> snd (detectBuildTool world_no_marker ''app-1700000000'') = ''unknown''
   \<and> http_errors (deployHandler world_no_marker request0)
       = [(''Unsupported build tool! %!v(MISSING)'', 400)]
   \<and> filter provisioning (deployHandler world_no_marker request0) = []"
proof -
  have dec: "json_Decode world_no_marker (Body request0)
      = Inr \<lparr>RepoURL = ''https://github.com/acme/app''\<rparr>"
    by (simp add: world_defs)
  have name: "getRepoNameFromURL (RepoURL \<lparr>RepoURL = ''https://github.com/acme/app''\<rparr>)
      = Inr ''app''"
    by (simp add: eval_defs)
  have name_nonempty: "''app'' \<noteq> []"
    by simp
  have dir_nonempty: "''app-1700000000'' \<noteq> []"
    by simp
  have dir: "createProjectDir world_no_marker ''app''
      = ([MkdirAll ''app-1700000000'' 511], ''app-1700000000'')"
    by (simp add: world_defs eval_defs)
  have clone: "snd (fetchCodeFromGitHub world_no_marker
      (RepoURL \<lparr>RepoURL = ''https://github.com/acme/app''\<rparr>) ''app-1700000000'') = None"
    by (simp add: world_defs eval_defs)
  have unknown: "snd (detectBuildTool world_no_marker ''app-1700000000'') = ''unknown''"
    by (simp add: world_defs eval_defs)
  from unknown_build_tool_rejected
    [OF dec name name_nonempty dir dir_nonempty clone unknown] dec name dir clone unknown
  show ?thesis by simp
qed

text \<open>
  Claim C5. When the wait on the container delivers, on the status channel, a status
  code other than 0, \<open>executeBuild\<close> returns the error that carries that code and never
  calls \<open>CopyFromContainer\<close>.
\<close>

theorem nonzero_exit_skips_extraction:
  assumes "ContainerWait cid \<in> set (fst (executeBuild e projectPath buildTool))"
    and "cli_ContainerWait e cid = FromStatusCh status"
    and "StatusCode status \<noteq> 0"
  shows "snd (executeBuild e projectPath buildTool)
           = Some (''container exited with non-zero status: ''
                     @ show_int (sint (StatusCode status)))
         \<and> filter is_copy (fst (executeBuild e projectPath buildTool)) = []"
  using assms
  by (auto simp: executeBuild_def generateDockerfile_def emit_def os_ModePerm_def Let_def
      waitError_def split: option.splits sum.splits prod.splits)

theorem nonzero_exit_skips_extraction_witness:
  "ContainerWait ''c0ffee'' \<in> set (fst (executeBuild world_exit_1 ''app-1700000000'' ''maven''))
   \<and> cli_ContainerWait world_exit_1 ''c0ffee'' = FromStatusCh \<lparr>StatusCode = 1\<rparr>
   \<and> StatusCode \<lparr>StatusCode = 1\<rparr> \<noteq> 0
   \<and> snd (executeBuild world_exit_1 ''app-1700000000'' ''maven'')
       = Some ''container exited with non-zero status: 1''
   \<and> filter is_copy (fst (executeBuild world_exit_1 ''app-1700000000'' ''maven'')) = []"
proof -
  have reached: "ContainerWait ''c0ffee''
      \<in> set (fst (executeBuild world_exit_1 ''app-1700000000'' ''maven''))"
    by (simp add: world_defs eval_defs)
  have signal: "cli_ContainerWait world_exit_1 ''c0ffee'' = FromStatusCh \<lparr>StatusCode = 1\<rparr>"
    by (simp add: world_defs)
  have code: "StatusCode \<lparr>StatusCode = 1\<rparr> \<noteq> 0"
    by simp
  have "show_int (sint (1 :: 64 word)) = ''1''"
    by (simp add: show_int_def nat_digits.simps)
  with nonzero_exit_skips_extraction [OF reached signal code] reached signal code
  show ?thesis by simp
qed

end
